theory Spec2Isabelle
  imports Complex_Main "HOL-Library.Log_Nat"
begin

section \<open>Double-precision arithmetic\<close>

text \<open>
  The scorer and the extractor compute with Python floats (IEEE 754 binary64), and two of
  the results are truncated to integers afterwards, so rounding is part of the behaviour.
  A finite double is modelled by the rational number it denotes. \<open>float64\<close> rounds an
  exact rational result to the nearest double, ties to the even mantissa, with gradual
  underflow below \<open>2 ^ - 1022\<close>. Overflow to infinity is not modelled: every magnitude that
  is rounded in this development stays far below \<open>2 ^ 1024\<close>.
\<close>

definition pow2 :: "int \<Rightarrow> rat" where
  "pow2 e = (if 0 \<le> e then 2 ^ nat e else 1 / 2 ^ nat (- e))"

text \<open>\<open>ilog2 q\<close> is the binary exponent of a positive rational: \<open>2 ^ ilog2 q \<le> q < 2 ^ (ilog2 q + 1)\<close>.\<close>

definition ilog2 :: "rat \<Rightarrow> int" where
  "ilog2 q = (if 1 \<le> q then bitlen \<lfloor>q\<rfloor> - 1 else - bitlen (\<lceil>1 / q\<rceil> - 1))"

definition round_half_even :: "rat \<Rightarrow> int" where
  "round_half_even q =
     (let n = \<lfloor>q\<rfloor>; d = q - of_int n
      in if d < 1 / 2 then n else if 1 / 2 < d then n + 1 else if even n then n else n + 1)"

text \<open>The exponent of the last mantissa bit: 52 below the leading bit, never below \<open>- 1074\<close>.\<close>

definition float_exp :: "rat \<Rightarrow> int" where
  "float_exp q = max (ilog2 q - 52) (- 1074)"

definition float64_pos :: "rat \<Rightarrow> rat" where
  "float64_pos q = of_int (round_half_even (q / pow2 (float_exp q))) * pow2 (float_exp q)"

definition float64 :: "rat \<Rightarrow> rat" where
  "float64 q = (if q = 0 then 0 else if 0 < q then float64_pos q else - float64_pos (- q))"

text \<open>The four operations on doubles: the exact result, rounded once.\<close>

definition fadd :: "rat \<Rightarrow> rat \<Rightarrow> rat" where
  "fadd a b = float64 (a + b)"

definition fsub :: "rat \<Rightarrow> rat \<Rightarrow> rat" where
  "fsub a b = float64 (a - b)"

definition fmul :: "rat \<Rightarrow> rat \<Rightarrow> rat" where
  "fmul a b = float64 (a * b)"

definition fdiv :: "rat \<Rightarrow> rat \<Rightarrow> rat" where
  "fdiv a b = float64 (a / b)"

text \<open>Python's \<open>int(x)\<close> and numpy's \<open>astype(int)\<close> on a finite double: truncation towards zero.\<close>

definition py_int :: "rat \<Rightarrow> int" where
  "py_int q = (if 0 \<le> q then \<lfloor>q\<rfloor> else \<lceil>q\<rceil>)"

text \<open>
  A value of a numeric feature: a finite number (a Python int or a finite double), an
  infinity or NaN. A comparison that involves NaN is false.
\<close>

datatype pyfloat = Finite rat | PosInf | NegInf | NaN

fun py_eq :: "pyfloat \<Rightarrow> rat \<Rightarrow> bool" where
  "py_eq (Finite x) c = (x = c)"
| "py_eq PosInf c = False"
| "py_eq NegInf c = False"
| "py_eq NaN c = False"

fun py_le :: "pyfloat \<Rightarrow> rat \<Rightarrow> bool" where
  "py_le (Finite x) c = (x \<le> c)"
| "py_le PosInf c = False"
| "py_le NegInf c = True"
| "py_le NaN c = False"

fun py_ge :: "pyfloat \<Rightarrow> rat \<Rightarrow> bool" where
  "py_ge (Finite x) c = (c \<le> x)"
| "py_ge PosInf c = True"
| "py_ge NegInf c = False"
| "py_ge NaN c = False"

fun py_gt :: "pyfloat \<Rightarrow> rat \<Rightarrow> bool" where
  "py_gt (Finite x) c = (c < x)"
| "py_gt PosInf c = True"
| "py_gt NegInf c = False"
| "py_gt NaN c = False"

section \<open>Feature records\<close>

text \<open>
  The feature dictionary of one wallet. A field is \<open>None\<close> when the key is absent from the
  dictionary, which is what the scorer's \<open>features.get(key, default)\<close> tests. The two
  dates hold Python's \<open>None\<close> for a wallet without transactions, hence the nested option.
  Timestamps are microseconds since the epoch.
\<close>

record features =
  wallet_id :: "string option"
  total_transactions :: "int option"
  first_transaction_date :: "int option option"
  last_transaction_date :: "int option option"
  days_since_last_activity :: "pyfloat option"
  total_supplied_usd :: "int option"
  total_borrowed_usd :: "int option"
  supply_to_borrow_ratio :: "pyfloat option"
  number_of_liquidations :: "pyfloat option"
  repayment_frequency :: "pyfloat option"
  volatile_asset_usage :: "pyfloat option"
  protocol_version_usage :: "string option"
  collateral_factor_average :: "pyfloat option"
  borrowing_behavior :: "string option"
  health_factor_trend :: "string option"

text \<open>\<open>d.get(key, default)\<close> on a numeric and on a string field.\<close>

definition get_num :: "pyfloat option \<Rightarrow> rat \<Rightarrow> pyfloat" where
  "get_num v d = (case v of None \<Rightarrow> Finite d | Some x \<Rightarrow> x)"

definition get_str :: "string option \<Rightarrow> string \<Rightarrow> string" where
  "get_str v d = (case v of None \<Rightarrow> d | Some s \<Rightarrow> s)"

section \<open>Risk scorer (risk\_scorer.py, config.py)\<close>

text \<open>\<open>RISK_WEIGHTS\<close> of config.py; each decimal literal denotes the nearest double.\<close>

definition RISK_WEIGHTS :: "(string \<times> rat) list" where
  "RISK_WEIGHTS =
     [(''borrow_supply_ratio'', float64 (25 / 100)),
      (''liquidation_count'', float64 (20 / 100)),
      (''inactivity_days'', float64 (15 / 100)),
      (''repayment_frequency'', float64 (15 / 100)),
      (''volatile_asset_usage'', float64 (10 / 100)),
      (''protocol_version'', float64 (10 / 100)),
      (''collateral_factor'', float64 (5 / 100))]"

text \<open>\<open>self.weights.get(component, 0)\<close>\<close>

definition weights_get :: "string \<Rightarrow> rat" where
  "weights_get component = (case map_of RISK_WEIGHTS component of None \<Rightarrow> 0 | Some w \<Rightarrow> w)"

definition score_borrow_supply_ratio :: "features \<Rightarrow> int" where
  "score_borrow_supply_ratio f =
     (let ratio = get_num (supply_to_borrow_ratio f) 0
      in if py_eq ratio 0 then 0
         else if py_le ratio (float64 (3 / 10)) then 100
         else if py_le ratio (float64 (5 / 10)) then 50
         else if py_le ratio (float64 (7 / 10)) then 0
         else if py_le ratio (float64 (9 / 10)) then - 50
         else - 100)"

definition score_liquidation_count :: "features \<Rightarrow> int" where
  "score_liquidation_count f =
     (let liquidations = get_num (number_of_liquidations f) 0
      in if py_eq liquidations 0 then 50
         else if py_eq liquidations 1 then - 25
         else if py_eq liquidations 2 then - 50
         else if py_le liquidations 5 then - 75
         else - 100)"

definition score_inactivity_days :: "features \<Rightarrow> int" where
  "score_inactivity_days f =
     (let inactivity_days = get_num (days_since_last_activity f) 365
      in if py_le inactivity_days 7 then 50
         else if py_le inactivity_days 30 then 25
         else if py_le inactivity_days 90 then 0
         else if py_le inactivity_days 180 then - 25
         else - 50)"

definition score_repayment_frequency :: "features \<Rightarrow> int" where
  "score_repayment_frequency f =
     (let frequency = get_num (repayment_frequency f) 0
      in if py_ge frequency (float64 2) then 50
         else if py_ge frequency (float64 1) then 25
         else if py_ge frequency (float64 (5 / 10)) then 0
         else if py_gt frequency 0 then - 25
         else - 50)"

definition score_volatile_asset_usage :: "features \<Rightarrow> int" where
  "score_volatile_asset_usage f =
     (let volatile_usage = get_num (volatile_asset_usage f) 0
      in if py_le volatile_usage (float64 (1 / 10)) then 50
         else if py_le volatile_usage (float64 (3 / 10)) then 25
         else if py_le volatile_usage (float64 (5 / 10)) then 0
         else if py_le volatile_usage (float64 (7 / 10)) then - 25
         else - 50)"

definition score_protocol_version :: "features \<Rightarrow> int" where
  "score_protocol_version f =
     (let version = get_str (protocol_version_usage f) ''none''
      in if version = ''v3'' then 25
         else if version = ''v2'' then 0
         else if version = ''none'' then - 25
         else 0)"

definition score_collateral_factor :: "features \<Rightarrow> int" where
  "score_collateral_factor f =
     (let collateral_factor = get_num (collateral_factor_average f) 0
      in if py_ge collateral_factor (float64 (8 / 10)) then 25
         else if py_ge collateral_factor (float64 (6 / 10)) then 0
         else if py_ge collateral_factor (float64 (4 / 10)) then - 25
         else - 50)"

text \<open>The dictionary \<open>risk_components\<close>, in insertion order, which is the order of the loop.\<close>

definition risk_components :: "features \<Rightarrow> (string \<times> int) list" where
  "risk_components f =
     [(''borrow_supply_ratio'', score_borrow_supply_ratio f),
      (''liquidation_count'', score_liquidation_count f),
      (''inactivity_days'', score_inactivity_days f),
      (''repayment_frequency'', score_repayment_frequency f),
      (''volatile_asset_usage'', score_volatile_asset_usage f),
      (''protocol_version'', score_protocol_version f),
      (''collateral_factor'', score_collateral_factor f)]"

text \<open>
  The loop \<open>weighted_score += score * weight\<close>: the integer contribution times the double
  weight, added to the running sum, both in double precision.
\<close>

definition weighted_score :: "features \<Rightarrow> rat" where
  "weighted_score f =
     foldl (\<lambda>acc (component, score). fadd acc (fmul (of_int score) (weights_get component)))
       0 (risk_components f)"

definition calculate_risk_score :: "features \<Rightarrow> int" where
  "calculate_risk_score f =
     (let base_score = 500;
          final_score = fadd base_score (weighted_score f);
          final_score = max 0 (min 1000 final_score)
      in py_int final_score)"

definition get_risk_category :: "int \<Rightarrow> string" where
  "get_risk_category score =
     (if score \<ge> 800 then ''Very Low Risk''
      else if score \<ge> 600 then ''Low Risk''
      else if score \<ge> 400 then ''Moderate Risk''
      else if score \<ge> 200 then ''High Risk''
      else ''Very High Risk'')"

text \<open>The feature dictionary of the worked scenario: seven keys, every other key absent.\<close>

definition scenario_features :: features where
  "scenario_features =
     \<lparr>wallet_id = None, total_transactions = None, first_transaction_date = None,
      last_transaction_date = None,
      days_since_last_activity = Some (Finite 5),
      total_supplied_usd = None, total_borrowed_usd = None,
      supply_to_borrow_ratio = Some (Finite (float64 (2 / 10))),
      number_of_liquidations = Some (Finite 0),
      repayment_frequency = Some (Finite (float64 (25 / 10))),
      volatile_asset_usage = Some (Finite (float64 (5 / 100))),
      protocol_version_usage = Some ''v3'',
      collateral_factor_average = Some (Finite (float64 (85 / 100))),
      borrowing_behavior = None, health_factor_trend = None\<rparr>"

text \<open>Adversarial inputs: a ratio of \<open>10 ^ 9\<close>, and non-finite values in every numeric field.\<close>

definition extreme_features :: features where
  "extreme_features =
     scenario_features\<lparr>supply_to_borrow_ratio := Some (Finite (float64 1000000000))\<rparr>"

definition nonfinite_features :: features where
  "nonfinite_features =
     scenario_features
       \<lparr>days_since_last_activity := Some PosInf,
        supply_to_borrow_ratio := Some NaN,
        number_of_liquidations := Some PosInf,
        repayment_frequency := Some NegInf,
        volatile_asset_usage := Some NaN,
        protocol_version_usage := None,
        collateral_factor_average := Some NaN\<rparr>"

subsection \<open>Score tables\<close>

text \<open>
  A row of the score table holds \<open>wallet_id\<close> and \<open>score\<close>. A pandas dataframe is a mutable
  object that callers hold by reference, so the tables live in a store indexed by
  references, and an operation that assigns to a column returns the updated store.
\<close>

type_synonym score_row = "string \<times> int"

type_synonym df_ref = nat

type_synonym df_store = "df_ref \<Rightarrow> score_row list"

datatype py_error = ValueError

text \<open>
  \<open>MinMaxScaler().fit_transform\<close> of scikit-learn on one column, with the default
  \<open>feature_range = (0, 1)\<close>. The library is not part of the repository; this is its
  algorithm: \<open>data_range = data_max - data_min\<close>,
  \<open>scale_ = (1 - 0) / _handle_zeros_in_scale(data_range)\<close>,
  \<open>min_ = 0 - data_min * scale_\<close> (here \<open>min_offset\<close>), and \<open>transform\<close> computes \<open>X * scale_ + min_\<close>, each
  operation in double precision. \<open>_handle_zeros_in_scale\<close> replaces a range below ten
  machine epsilons by 1 (older releases test \<open>== 0.0\<close>; on a column of integers the range
  is 0 or at least 1, so both agree). An empty array is rejected with \<open>ValueError\<close>. The
  scaler is refitted by every call, so its state between calls does not matter.
\<close>

definition eps :: rat where
  "eps = 1 / 2 ^ 52"

definition handle_zeros_in_scale :: "rat \<Rightarrow> rat" where
  "handle_zeros_in_scale scale = (if scale < 10 * eps then 1 else scale)"

fun fit_transform :: "rat list \<Rightarrow> py_error + rat list" where
  "fit_transform [] = Inl ValueError"
| "fit_transform (x # xs) =
     (let data_min = fold min xs x;
          data_max = fold max xs x;
          data_range = fsub data_max data_min;
          scale = fdiv (1 - 0) (handle_zeros_in_scale data_range);
          min_offset = fsub 0 (fmul data_min scale)
      in Inr (map (\<lambda>v. fadd (fmul v scale) min_offset) (x # xs)))"

text \<open>
  \<open>normalize_scores\<close>: the integer score column is converted to doubles and scaled, the
  result is multiplied by 1000 and truncated by \<open>astype(int)\<close>, and the statement
  \<open>scores_df['score'] = ...\<close> stores the new column in the dataframe that was passed in.
  The same reference is returned.
\<close>

definition normalize_scores :: "df_store \<Rightarrow> df_ref \<Rightarrow> py_error + (df_ref \<times> df_store)" where
  "normalize_scores store scores_df =
     (if store scores_df = [] then Inr (scores_df, store)
      else
        let scores = map (\<lambda>row. float64 (of_int (snd row))) (store scores_df)
        in case fit_transform scores of
             Inl e \<Rightarrow> Inl e
           | Inr scaled \<Rightarrow>
               (let normalized_scores = map (\<lambda>v. fmul v 1000) scaled;
                    column = map py_int normalized_scores
                in Inr (scores_df,
                        store(scores_df := zip (map fst (store scores_df)) column))))"

text \<open>
  The summary dictionary; \<open>None\<close> stands for the empty dictionary \<open>{}\<close>. The mean, median
  and standard deviation of numpy are given in exact real arithmetic.
\<close>

record risk_summary =
  total_wallets :: nat
  average_score :: real
  median_score :: real
  std_score :: real
  min_score :: int
  max_score :: int
  risk_distribution :: "(string \<times> nat) list"

definition np_mean :: "int list \<Rightarrow> real" where
  "np_mean xs = of_int (sum_list xs) / of_nat (length xs)"

definition np_median :: "int list \<Rightarrow> real" where
  "np_median xs =
     (let s = sort xs; n = length xs
      in if even n then (of_int (s ! (n div 2 - 1)) + of_int (s ! (n div 2))) / 2
         else of_int (s ! (n div 2)))"

definition np_std :: "int list \<Rightarrow> real" where
  "np_std xs = sqrt (sum_list (map (\<lambda>x. (of_int x - np_mean xs) ^ 2) xs) / of_nat (length xs))"

fun generate_risk_summary :: "score_row list \<Rightarrow> risk_summary option" where
  "generate_risk_summary [] = None"
| "generate_risk_summary (r # rs) =
     (let scores = map snd (r # rs)
      in Some
        \<lparr>total_wallets = length scores,
         average_score = np_mean scores,
         median_score = np_median scores,
         std_score = np_std scores,
         min_score = fold min (map snd rs) (snd r),
         max_score = fold max (map snd rs) (snd r),
         risk_distribution =
           [(''Very Low Risk'', length (filter (\<lambda>s. s \<ge> 800) scores)),
            (''Low Risk'', length (filter (\<lambda>s. s \<ge> 600 \<and> s < 800) scores)),
            (''Moderate Risk'', length (filter (\<lambda>s. s \<ge> 400 \<and> s < 600) scores)),
            (''High Risk'', length (filter (\<lambda>s. s \<ge> 200 \<and> s < 400) scores)),
            (''Very High Risk'', length (filter (\<lambda>s. s < 200) scores))]\<rparr>)"

text \<open>A store that holds one table at reference 0, for concrete batches.\<close>

definition single_table :: "score_row list \<Rightarrow> df_store" where
  "single_table rows = (\<lambda>r. if r = 0 then rows else [])"

text \<open>
  The score column of table \<open>r\<close> in the store that a call leaves behind, or \<open>None\<close> when
  the call raised.
\<close>

definition scores_after :: "py_error + (df_ref \<times> df_store) \<Rightarrow> df_ref \<Rightarrow> int list option" where
  "scores_after res r =
     (case res of Inl e \<Rightarrow> None | Inr (r', store') \<Rightarrow> Some (map snd (store' r)))"

section \<open>Feature extractor (feature\_extractor.py, config.py)\<close>

text \<open>
  A row of the transaction table. Only the columns that the extractor reads are kept.
  \<open>market\<close> is \<open>None\<close> for a missing value (the source passes \<open>na=False\<close>); \<open>topics\<close> is
  \<open>None\<close> when the cell is not a list. Timestamps are microseconds since the epoch.
  Strings are ASCII: case conversion maps the 26 letters and nothing else.
\<close>

record transaction =
  wallet :: string
  market :: "string option"
  topics :: "string list option"
  timestamp :: int

definition VOLATILE_ASSETS :: "string list" where
  "VOLATILE_ASSETS = [''WBTC'', ''ETH'', ''LINK'', ''UNI'', ''MKR'', ''YFI'', ''AAVE'', ''SUSHI'']"

definition COMPOUND_V2_MARKETS :: "(string \<times> string) list" where
  "COMPOUND_V2_MARKETS =
     [(''cDAI'', ''0x5d3a536E4D6DbD6114cc1Ead35777bAB948E3643''),
      (''cUSDC'', ''0x39AA39c021dfbaE8faC545936693aC917d5E7563''),
      (''cETH'', ''0x4Ddc2D193948926D02f9B1fE9e1daa0718270ED5''),
      (''cWBTC'', ''0xC11b1268C1A384e55C48c2391d8d480264A3A7F4''),
      (''cUSDT'', ''0xf650C3d88D12dB855b8bf7D11Be6C55A4e07dCC9''),
      (''cCOMP'', ''0x70e36f6BF80a52b3B46b3aF8e106CC0ed743E8e4''),
      (''cUNI'', ''0x35A18000230DA775CAc24873d00Ff85BccdeD550''),
      (''cLINK'', ''0xFAce851a4921ce59e912d19329929CE6da6EB0c7''),
      (''cMKR'', ''0x95b4eF2869eBD94BEb4eEE400a97824Af4F4Ab1c''),
      (''cYFI'', ''0x80a2AE356fc9ef4305676f7a3E2Ed04e12C33946''),
      (''cBAT'', ''0x6C8c6b02E7b2BE14d4fA6022Dfd6d75921D90E4E''),
      (''cZRX'', ''0xB3319f5D18Bc0D84dD1b4825Dcde5d5f7266d407''),
      (''cAAVE'', ''0xe65cdB6479BaC1e22340E4E755fAE7E509EcD06c''),
      (''cSUSHI'', ''0x4B0181102A0112A2ef11AbEE5563bb4a3176c9d7'')]"

definition COMPOUND_V3_MARKETS :: "(string \<times> string) list" where
  "COMPOUND_V3_MARKETS =
     [(''USDC'', ''0xc3d688B66703497DAA19211EEdff47f25384cdc3''),
      (''WETH'', ''0xA17581A9E3356d9A858b789D68B4d7eD7D5b8A6A''),
      (''WBTC'', ''0xccF4429DB6322D5C611ee964527D42E5d685DD6a''),
      (''LINK'', ''0x9c4ec768c28520B50860ea7a15bd7213a9fF58bf''),
      (''UNI'', ''0x9a0242b7a33DAcbe44eD41d3A2b3b3a3C3b3b3b3'')]"

subsection \<open>Strings\<close>

text \<open>Python's \<open>sub in s\<close>.\<close>

fun str_contains :: "string \<Rightarrow> string \<Rightarrow> bool" where
  "str_contains sub [] = (sub = [])"
| "str_contains sub (c # cs) = (take (length sub) (c # cs) = sub \<or> str_contains sub cs)"

definition lower_char :: "char \<Rightarrow> char" where
  "lower_char c =
     (let n = (of_char c :: nat) in if 65 \<le> n \<and> n \<le> 90 then char_of (n + 32) else c)"

definition upper_char :: "char \<Rightarrow> char" where
  "upper_char c =
     (let n = (of_char c :: nat) in if 97 \<le> n \<and> n \<le> 122 then char_of (n - 32) else c)"

definition str_lower :: "string \<Rightarrow> string" where
  "str_lower s = map lower_char s"

definition str_upper :: "string \<Rightarrow> string" where
  "str_upper s = map upper_char s"

text \<open>\<open>str(x)\<close> of a market cell; a missing value prints as \<open>nan\<close>.\<close>

definition py_str :: "string option \<Rightarrow> string" where
  "py_str m = (case m of None \<Rightarrow> ''nan'' | Some s \<Rightarrow> s)"

text \<open>
  \<open>Series.str.contains(pat, na=False)\<close> for a pattern without metacharacters, case
  sensitive and with \<open>case=False\<close>; \<open>Series.isin\<close>.
\<close>

definition market_contains :: "string \<Rightarrow> string option \<Rightarrow> bool" where
  "market_contains pat m = (case m of None \<Rightarrow> False | Some s \<Rightarrow> str_contains pat s)"

definition market_icontains :: "string \<Rightarrow> string option \<Rightarrow> bool" where
  "market_icontains pat m =
     (case m of None \<Rightarrow> False | Some s \<Rightarrow> str_contains (str_lower pat) (str_lower s))"

definition market_isin :: "string list \<Rightarrow> string option \<Rightarrow> bool" where
  "market_isin names m = (case m of None \<Rightarrow> False | Some s \<Rightarrow> s \<in> set names)"

text \<open>
  The lambda applied to the \<open>topics\<close> column:
  \<open>any(kw in str(topic).lower() for topic in x) if isinstance(x, list) else False\<close>.
\<close>

definition topics_any :: "string \<Rightarrow> string list option \<Rightarrow> bool" where
  "topics_any kw x =
     (case x of None \<Rightarrow> False | Some l \<Rightarrow> list_ex (\<lambda>topic. str_contains kw (str_lower topic)) l)"

subsection \<open>Time\<close>

text \<open>\<open>Timedelta.days\<close>: whole days, rounded towards minus infinity.\<close>

definition timedelta_days :: "int \<Rightarrow> int" where
  "timedelta_days d = d div 86400000000"

text \<open>\<open>wallet_txs['timestamp'].min()\<close> and \<open>.max()\<close> of a table with first row \<open>t\<close>.\<close>

definition timestamp_min :: "transaction \<Rightarrow> transaction list \<Rightarrow> int" where
  "timestamp_min t ts = fold min (map timestamp ts) (timestamp t)"

definition timestamp_max :: "transaction \<Rightarrow> transaction list \<Rightarrow> int" where
  "timestamp_max t ts = fold max (map timestamp ts) (timestamp t)"

subsection \<open>The features\<close>

definition get_default_features :: "string \<Rightarrow> features" where
  "get_default_features wallet_address =
     \<lparr>wallet_id = Some wallet_address,
      total_transactions = Some 0,
      first_transaction_date = Some None,
      last_transaction_date = Some None,
      days_since_last_activity = Some (Finite 365),
      total_supplied_usd = Some 0,
      total_borrowed_usd = Some 0,
      supply_to_borrow_ratio = Some (Finite 0),
      number_of_liquidations = Some (Finite 0),
      repayment_frequency = Some (Finite 0),
      volatile_asset_usage = Some (Finite 0),
      protocol_version_usage = Some ''none'',
      collateral_factor_average = Some (Finite 0),
      borrowing_behavior = Some ''none'',
      health_factor_trend = Some ''stable''\<rparr>"

text \<open>\<open>now\<close> is the value of \<open>datetime.now()\<close>.\<close>

fun calculate_inactivity_days :: "int \<Rightarrow> transaction list \<Rightarrow> int" where
  "calculate_inactivity_days now [] = 365"
| "calculate_inactivity_days now (t # ts) =
     (let last_activity = timestamp_max t ts; current_time = now
      in timedelta_days (current_time - last_activity))"

definition supply_events :: "transaction list \<Rightarrow> transaction list" where
  "supply_events wallet_txs =
     filter (\<lambda>tx. market_contains ''c'' (market tx)
                 \<or> market_isin [''USDC'', ''WETH'', ''WBTC''] (market tx)) wallet_txs"

definition calculate_total_supplied :: "transaction list \<Rightarrow> int" where
  "calculate_total_supplied wallet_txs = int (length (supply_events wallet_txs)) * 1000"

definition borrow_events :: "transaction list \<Rightarrow> transaction list" where
  "borrow_events wallet_txs =
     filter (\<lambda>tx. market_contains ''c'' (market tx)
                 \<or> market_isin [''USDC'', ''WETH'', ''WBTC''] (market tx)) wallet_txs"

definition calculate_total_borrowed :: "transaction list \<Rightarrow> int" where
  "calculate_total_borrowed wallet_txs = int (length (borrow_events wallet_txs)) * 500"

definition liquidation_events :: "transaction list \<Rightarrow> transaction list" where
  "liquidation_events wallet_txs =
     filter (\<lambda>tx. market_icontains ''liquidate'' (market tx)
                 \<or> topics_any ''liquidate'' (topics tx)) wallet_txs"

definition count_liquidations :: "transaction list \<Rightarrow> int" where
  "count_liquidations wallet_txs = int (length (liquidation_events wallet_txs))"

definition repayment_events :: "transaction list \<Rightarrow> transaction list" where
  "repayment_events wallet_txs =
     filter (\<lambda>tx. market_icontains ''repay'' (market tx)
                 \<or> topics_any ''repay'' (topics tx)) wallet_txs"

text \<open>The span of activity in whole days, \<open>(max - min).days\<close>.\<close>

definition time_span :: "transaction \<Rightarrow> transaction list \<Rightarrow> int" where
  "time_span t ts = timedelta_days (timestamp_max t ts - timestamp_min t ts)"

fun calculate_repayment_frequency :: "transaction list \<Rightarrow> rat" where
  "calculate_repayment_frequency [] = 0"
| "calculate_repayment_frequency (t # ts) =
     (if repayment_events (t # ts) = [] then 0
      else if time_span t ts = 0 then of_nat (length (repayment_events (t # ts)))
      else
        let months_active = fdiv (of_int (time_span t ts)) 30
        in if 0 < months_active
           then fdiv (of_nat (length (repayment_events (t # ts)))) months_active
           else 0)"

definition volatile_transactions :: "transaction list \<Rightarrow> transaction list" where
  "volatile_transactions wallet_txs =
     filter (\<lambda>tx. list_ex (\<lambda>asset. str_contains asset (str_upper (py_str (market tx))))
                   VOLATILE_ASSETS) wallet_txs"

fun calculate_volatile_asset_usage :: "transaction list \<Rightarrow> rat" where
  "calculate_volatile_asset_usage [] = 0"
| "calculate_volatile_asset_usage (t # ts) =
     fdiv (of_nat (length (volatile_transactions (t # ts)))) (of_nat (length (t # ts)))"

fun determine_protocol_version :: "transaction list \<Rightarrow> string" where
  "determine_protocol_version [] = ''none''"
| "determine_protocol_version (t # ts) =
     (let v2_transactions =
            filter (\<lambda>tx. market_isin (map fst COMPOUND_V2_MARKETS) (market tx)) (t # ts);
          v3_transactions =
            filter (\<lambda>tx. market_isin (map fst COMPOUND_V3_MARKETS) (market tx)) (t # ts)
      in if length v3_transactions > length v2_transactions then ''v3''
         else if length v2_transactions > 0 then ''v2''
         else ''unknown'')"

definition collateral_factors :: "(string \<times> rat) list" where
  "collateral_factors =
     [(''USDC'', float64 (85 / 100)), (''USDT'', float64 (80 / 100)), (''DAI'', float64 (85 / 100)),
      (''ETH'', float64 (75 / 100)), (''WETH'', float64 (75 / 100)), (''WBTC'', float64 (70 / 100)),
      (''LINK'', float64 (65 / 100)), (''UNI'', float64 (60 / 100)), (''MKR'', float64 (55 / 100)),
      (''YFI'', float64 (50 / 100)), (''AAVE'', float64 (55 / 100)), (''SUSHI'', float64 (50 / 100))]"

text \<open>The inner loop with its \<open>break\<close>: the first asset, in table order, that occurs in the market name.\<close>

definition first_factor :: "string \<Rightarrow> rat option" where
  "first_factor market_name =
     map_option snd (find (\<lambda>(asset, factor). str_contains asset market_name) collateral_factors)"

text \<open>The outer loop: the running pair \<open>(total_factor, count)\<close>.\<close>

definition collateral_loop :: "transaction list \<Rightarrow> rat \<times> nat" where
  "collateral_loop wallet_txs =
     foldl (\<lambda>(total_factor, count) tx.
              case first_factor (str_upper (py_str (market tx))) of
                None \<Rightarrow> (total_factor, count)
              | Some factor \<Rightarrow> (fadd total_factor factor, count + 1))
       (0, 0) wallet_txs"

fun calculate_collateral_factor :: "transaction list \<Rightarrow> rat" where
  "calculate_collateral_factor [] = 0"
| "calculate_collateral_factor (t # ts) =
     (case collateral_loop (t # ts) of
        (total_factor, count) \<Rightarrow> if count > 0 then fdiv total_factor (of_nat count) else 0)"

text \<open>The pattern \<open>mint|supply\<close> is an alternation of two literals.\<close>

fun analyze_borrowing_behavior :: "transaction list \<Rightarrow> string" where
  "analyze_borrowing_behavior [] = ''none''"
| "analyze_borrowing_behavior (t # ts) =
     (let supply_count =
            length (filter (\<lambda>tx. market_icontains ''mint'' (market tx)
                                \<or> market_icontains ''supply'' (market tx)) (t # ts));
          borrow_count = length (filter (\<lambda>tx. market_icontains ''borrow'' (market tx)) (t # ts));
          repay_count = length (filter (\<lambda>tx. market_icontains ''repay'' (market tx)) (t # ts))
      in if borrow_count = 0 then ''supplier_only''
         else if supply_count = 0 then ''borrower_only''
         else if fdiv (of_nat repay_count) (of_nat (max borrow_count 1)) > float64 (8 / 10)
           then ''responsible_borrower''
         else ''risky_borrower'')"

text \<open>\<open>tail(10)\<close> keeps the last ten rows, \<open>head(n)\<close> the first \<open>n\<close>.\<close>

fun calculate_health_factor_trend :: "transaction list \<Rightarrow> string" where
  "calculate_health_factor_trend [] = ''unknown''"
| "calculate_health_factor_trend (t # ts) =
     (let wallet_txs = t # ts;
          recent_txs = drop (length wallet_txs - 10) wallet_txs;
          older_txs = take (max 1 (length wallet_txs - 10)) wallet_txs;
          recent_volatility = calculate_volatile_asset_usage recent_txs;
          older_volatility = calculate_volatile_asset_usage older_txs
      in if recent_volatility < older_volatility then ''improving''
         else if recent_volatility > older_volatility then ''deteriorating''
         else ''stable'')"

text \<open>The rows of one wallet, \<open>transactions_df[transactions_df['wallet'] == wallet_address]\<close>.\<close>

definition wallet_rows :: "transaction list \<Rightarrow> string \<Rightarrow> transaction list" where
  "wallet_rows transactions_df wallet_address =
     filter (\<lambda>tx. wallet tx = wallet_address) transactions_df"

definition extract_wallet_features :: "int \<Rightarrow> transaction list \<Rightarrow> string \<Rightarrow> features" where
  "extract_wallet_features now transactions_df wallet_address =
     (if transactions_df = [] then get_default_features wallet_address
      else
        case wallet_rows transactions_df wallet_address of
          [] \<Rightarrow> get_default_features wallet_address
        | t # ts \<Rightarrow>
            (let wallet_txs = t # ts;
                 supplied = calculate_total_supplied wallet_txs;
                 borrowed = calculate_total_borrowed wallet_txs;
                 features =
                   \<lparr>wallet_id = Some wallet_address,
                    total_transactions = Some (int (length wallet_txs)),
                    first_transaction_date = Some (Some (timestamp_min t ts)),
                    last_transaction_date = Some (Some (timestamp_max t ts)),
                    days_since_last_activity =
                      Some (Finite (of_int (calculate_inactivity_days now wallet_txs))),
                    total_supplied_usd = Some supplied,
                    total_borrowed_usd = Some borrowed,
                    supply_to_borrow_ratio = Some (Finite 0),
                    number_of_liquidations = Some (Finite (of_int (count_liquidations wallet_txs))),
                    repayment_frequency = Some (Finite (calculate_repayment_frequency wallet_txs)),
                    volatile_asset_usage = Some (Finite (calculate_volatile_asset_usage wallet_txs)),
                    protocol_version_usage = Some (determine_protocol_version wallet_txs),
                    collateral_factor_average = Some (Finite (calculate_collateral_factor wallet_txs)),
                    borrowing_behavior = Some (analyze_borrowing_behavior wallet_txs),
                    health_factor_trend = Some (calculate_health_factor_trend wallet_txs)\<rparr>
             in if supplied > 0
                then features\<lparr>supply_to_borrow_ratio := Some (Finite (fdiv (of_int borrowed) (of_int supplied)))\<rparr>
                else features))"

definition extract_all_wallet_features ::
    "int \<Rightarrow> transaction list \<Rightarrow> string list \<Rightarrow> features list" where
  "extract_all_wallet_features now transactions_df wallet_addresses =
     map (extract_wallet_features now transactions_df) wallet_addresses"

text \<open>Three repayments of one wallet within the same second, and one supply a week earlier.\<close>

definition repay_tx :: "int \<Rightarrow> transaction" where
  "repay_tx time = \<lparr>wallet = ''0xabc'', market = Some ''repayBorrow'', topics = Some [], timestamp = time\<rparr>"

definition market_tx :: "string \<Rightarrow> int \<Rightarrow> transaction" where
  "market_tx name time = \<lparr>wallet = ''0xabc'', market = Some name, topics = Some [], timestamp = time\<rparr>"

section \<open>Properties of the rounding\<close>

lemma pow2_powi: "pow2 e = 2 powi e"
  by (simp add: pow2_def power_int_def field_simps)

lemma pow2_pos: "0 < pow2 e"
  by (simp add: pow2_powi)

lemma pow2_add: "pow2 (a + b) = pow2 a * pow2 b"
  by (simp add: pow2_powi power_int_add)

lemma pow2_mono: "a \<le> b \<Longrightarrow> pow2 a \<le> pow2 b"
  by (simp add: pow2_powi power_int_increasing)

lemma pow2_less_iff: "pow2 a < pow2 b \<longleftrightarrow> a < b"
proof
  assume "pow2 a < pow2 b"
  show "a < b"
  proof (rule ccontr)
    assume "\<not> a < b"
    then have "pow2 b \<le> pow2 a" by (simp add: pow2_mono)
    with \<open>pow2 a < pow2 b\<close> show False by simp
  qed
next
  assume "a < b"
  then show "pow2 a < pow2 b"
    by (simp add: pow2_powi power_int_strict_increasing)
qed

lemma pow2_nat: "0 \<le> k \<Longrightarrow> pow2 k = 2 ^ nat k"
  by (simp add: pow2_def)

lemma pow2_neg: "k \<le> 0 \<Longrightarrow> pow2 k = 1 / 2 ^ nat (- k)"
  by (cases "k = 0") (simp_all add: pow2_def)

lemma ilog2_lower:
  assumes "0 < q"
  shows "pow2 (ilog2 q) \<le> q"
proof (cases "1 \<le> q")
  case True
  define n where "n = \<lfloor>q\<rfloor>"
  have n: "1 \<le> n" using True by (simp add: n_def le_floor_iff)
  then have bl: "1 \<le> bitlen n" using bitlen_eq_zero_iff [of n] bitlen_nonneg [of n] by linarith
  have "(2::int) ^ nat (bitlen n - 1) \<le> n" using bitlen_bounds [of n] n by simp
  then have "rat_of_int (2 ^ nat (bitlen n - 1)) \<le> rat_of_int n" by (simp only: of_int_le_iff)
  also have "\<dots> \<le> q" by (simp add: n_def)
  finally have "2 ^ nat (bitlen n - 1) \<le> q" by simp
  moreover have "ilog2 q = bitlen n - 1" using True by (simp add: ilog2_def n_def)
  ultimately show ?thesis using bl by (simp add: pow2_nat)
next
  case False
  define n where "n = \<lceil>1 / q\<rceil> - 1"
  have "1 < 1 / q" using False assms by simp
  then have n: "1 \<le> n" unfolding n_def by (simp add: less_ceiling_iff)
  have "1 / q \<le> rat_of_int (n + 1)" by (simp add: n_def)
  also have "n + 1 \<le> 2 ^ nat (bitlen n)" using bitlen_bounds [of n] n by simp
  then have "rat_of_int (n + 1) \<le> rat_of_int (2 ^ nat (bitlen n))" by (simp only: of_int_le_iff)
  finally have "1 / q \<le> 2 ^ nat (bitlen n)" by simp
  then have "1 / 2 ^ nat (bitlen n) \<le> q" using assms by (simp add: field_simps)
  moreover have "ilog2 q = - bitlen n" using False by (simp add: ilog2_def n_def)
  ultimately show ?thesis using bitlen_nonneg [of n] by (simp add: pow2_neg)
qed

lemma ilog2_upper:
  assumes "0 < q"
  shows "q < pow2 (ilog2 q + 1)"
proof (cases "1 \<le> q")
  case True
  define n where "n = \<lfloor>q\<rfloor>"
  have n: "1 \<le> n" using True by (simp add: n_def le_floor_iff)
  have "n + 1 \<le> 2 ^ nat (bitlen n)" using bitlen_bounds [of n] n by simp
  then have "rat_of_int (n + 1) \<le> rat_of_int (2 ^ nat (bitlen n))" by (simp only: of_int_le_iff)
  moreover have "q < rat_of_int (n + 1)" unfolding n_def by linarith
  ultimately have "q < 2 ^ nat (bitlen n)" by simp
  moreover have "ilog2 q + 1 = bitlen n" using True by (simp add: ilog2_def n_def)
  ultimately show ?thesis using bitlen_nonneg [of n] by (simp add: pow2_nat)
next
  case False
  define n where "n = \<lceil>1 / q\<rceil> - 1"
  have "1 < 1 / q" using False assms by simp
  then have n: "1 \<le> n" unfolding n_def by (simp add: less_ceiling_iff)
  then have bl: "1 \<le> bitlen n" using bitlen_eq_zero_iff [of n] bitlen_nonneg [of n] by linarith
  have "(2::int) ^ nat (bitlen n - 1) \<le> n" using bitlen_bounds [of n] n by simp
  then have "rat_of_int (2 ^ nat (bitlen n - 1)) \<le> rat_of_int n" by (simp only: of_int_le_iff)
  also have "rat_of_int n < 1 / q" unfolding n_def by linarith
  finally have "2 ^ nat (bitlen n - 1) < 1 / q" by simp
  then have "q < 1 / 2 ^ nat (bitlen n - 1)" using assms by (simp add: field_simps)
  moreover have "ilog2 q + 1 = - (bitlen n - 1)" using False by (simp add: ilog2_def n_def)
  ultimately show ?thesis using bl by (simp add: pow2_neg)
qed

lemma ilog2_unique:
  assumes "pow2 k \<le> q" and "q < pow2 (k + 1)"
  shows "ilog2 q = k"
proof -
  have q: "0 < q" using assms(1) pow2_pos [of k] by linarith
  have "pow2 (ilog2 q) < pow2 (k + 1)" using ilog2_lower [OF q] assms(2) by linarith
  then have "ilog2 q < k + 1" by (simp add: pow2_less_iff)
  moreover have "pow2 k < pow2 (ilog2 q + 1)" using ilog2_upper [OF q] assms(1) by linarith
  then have "k < ilog2 q + 1" by (simp add: pow2_less_iff)
  ultimately show ?thesis by linarith
qed

lemma ilog2_mono:
  assumes "0 < x" and "x \<le> y"
  shows "ilog2 x \<le> ilog2 y"
proof -
  have y: "0 < y" using assms by linarith
  have "pow2 (ilog2 x) < pow2 (ilog2 y + 1)"
    using ilog2_lower [OF assms(1)] ilog2_upper [OF y] assms(2) by linarith
  then show ?thesis by (simp add: pow2_less_iff)
qed


lemma round_half_even_of_int: "round_half_even (rat_of_int n) = n"
  by (simp add: round_half_even_def)

lemma round_half_even_floor: "\<lfloor>q\<rfloor> \<le> round_half_even q \<and> round_half_even q \<le> \<lfloor>q\<rfloor> + 1"
  by (simp add: round_half_even_def Let_def)

lemma round_half_even_mono:
  assumes "x \<le> y"
  shows "round_half_even x \<le> round_half_even y"
proof (cases "\<lfloor>x\<rfloor> = \<lfloor>y\<rfloor>")
  case True
  then have "x - rat_of_int \<lfloor>x\<rfloor> \<le> y - rat_of_int \<lfloor>y\<rfloor>" using assms by simp
  then show ?thesis using True by (auto simp add: round_half_even_def Let_def)
next
  case False
  then have "\<lfloor>x\<rfloor> < \<lfloor>y\<rfloor>" using floor_mono [OF assms] by linarith
  then show ?thesis
    using round_half_even_floor [of x] round_half_even_floor [of y] by linarith
qed

lemma round_half_even_le: "q \<le> rat_of_int n \<Longrightarrow> round_half_even q \<le> n"
  using round_half_even_mono [of q "rat_of_int n"] by (simp add: round_half_even_of_int)

lemma round_half_even_ge: "rat_of_int n \<le> q \<Longrightarrow> n \<le> round_half_even q"
  using round_half_even_mono [of "rat_of_int n" q] by (simp add: round_half_even_of_int)

lemma float64_pos_alt:
  "float64_pos q = rat_of_int (round_half_even (q / pow2 (float_exp q))) * pow2 (float_exp q)"
  by (simp add: float64_pos_def)

lemma mant_upper:
  assumes "0 < q"
  shows "round_half_even (q / pow2 (float_exp q)) \<le> 2 ^ 53"
proof -
  have "ilog2 q + 1 \<le> float_exp q + 53" by (simp add: float_exp_def)
  then have "pow2 (ilog2 q + 1) \<le> pow2 (float_exp q + 53)" by (rule pow2_mono)
  with ilog2_upper [OF assms] have "q < pow2 (float_exp q + 53)" by linarith
  also have "\<dots> = pow2 (float_exp q) * 2 ^ 53" by (simp add: pow2_add pow2_nat)
  finally have "q / pow2 (float_exp q) \<le> rat_of_int (2 ^ 53)"
    using pow2_pos [of "float_exp q"] by (simp add: field_simps)
  then show ?thesis by (rule round_half_even_le)
qed

lemma mant_lower:
  assumes "0 < q" and "float_exp q = ilog2 q - 52"
  shows "2 ^ 52 \<le> round_half_even (q / pow2 (float_exp q))"
proof -
  have "pow2 (float_exp q) * 2 ^ 52 = pow2 (float_exp q + 52)" by (simp add: pow2_add pow2_nat)
  also have "\<dots> \<le> q" using ilog2_lower [OF assms(1)] assms(2) by simp
  finally have "rat_of_int (2 ^ 52) \<le> q / pow2 (float_exp q)"
    using pow2_pos [of "float_exp q"] by (simp add: field_simps)
  then show ?thesis by (rule round_half_even_ge)
qed

lemma mant_nonneg:
  assumes "0 < q"
  shows "0 \<le> round_half_even (q / pow2 (float_exp q))"
proof -
  have "rat_of_int 0 \<le> q / pow2 (float_exp q)" using assms pow2_pos [of "float_exp q"] by simp
  then show ?thesis by (rule round_half_even_ge)
qed

lemma float64_pos_nonneg: "0 < q \<Longrightarrow> 0 \<le> float64_pos q"
  using mant_nonneg [of q] pow2_pos [of "float_exp q"] by (simp add: float64_pos_alt)

lemma float64_pos_fixes:
  assumes "0 < r" and "r = rat_of_int z * pow2 (float_exp r)"
  shows "float64_pos r = r"
proof -
  have "r / pow2 (float_exp r) = rat_of_int z"
    using assms(2) pow2_pos [of "float_exp r"] by (simp add: field_simps)
  then show ?thesis using assms(2) by (simp add: float64_pos_alt round_half_even_of_int)
qed

lemma float64_pos_idem:
  assumes "0 < q" and "0 < float64_pos q"
  shows "float64_pos (float64_pos q) = float64_pos q"
proof -
  define e where "e = float_exp q"
  define m where "m = round_half_even (q / pow2 e)"
  define r where "r = float64_pos q"
  have r: "r = rat_of_int m * pow2 e" by (simp add: r_def m_def e_def float64_pos_alt)
  have rpos: "0 < r" using assms(2) by (simp add: r_def)
  have m53: "m \<le> 2 ^ 53" using mant_upper [OF assms(1)] by (simp add: m_def e_def)
  have e_low: "- 1074 \<le> e" by (simp add: e_def float_exp_def)
  have "\<exists>z. r = rat_of_int z * pow2 (float_exp r)"
  proof (cases "m = 2 ^ 53")
    case True
    then have r53: "r = pow2 (e + 53)" by (simp add: r pow2_add pow2_nat)
    have "ilog2 r = e + 53"
    proof (rule ilog2_unique)
      show "pow2 (e + 53) \<le> r" by (simp add: r53)
      show "r < pow2 (e + 53 + 1)" by (simp add: r53 pow2_less_iff)
    qed
    then have "float_exp r = e + 1" using e_low by (simp add: float_exp_def)
    then have "r = rat_of_int (2 ^ 52) * pow2 (float_exp r)"
      by (simp add: r53 pow2_add pow2_nat)
    then show ?thesis ..
  next
    case False
    then have "m + 1 \<le> 2 ^ 53" using m53 by linarith
    then have "rat_of_int m < rat_of_int (2 ^ 53)" by (simp only: of_int_less_iff)
    then have "r < 2 ^ 53 * pow2 e" using pow2_pos [of e] by (simp add: r)
    also have "\<dots> = pow2 (e + 53)" by (simp add: pow2_add pow2_nat)
    finally have "pow2 (ilog2 r) < pow2 (e + 53)" using ilog2_lower [OF rpos] by linarith
    then have "ilog2 r < e + 53" by (simp add: pow2_less_iff)
    then have le: "float_exp r \<le> e" using e_low by (simp add: float_exp_def)
    define k where "k = nat (e - float_exp r)"
    have "pow2 e = pow2 (float_exp r + int k)" using le by (simp add: k_def)
    also have "\<dots> = pow2 (float_exp r) * 2 ^ k" by (simp add: pow2_add pow2_nat)
    finally have pe: "pow2 e = pow2 (float_exp r) * 2 ^ k" .
    have "rat_of_int m * pow2 e = rat_of_int (m * 2 ^ k) * pow2 (float_exp r)"
      by (simp add: pe)
    with r have "r = rat_of_int (m * 2 ^ k) * pow2 (float_exp r)" by (rule trans)
    then show ?thesis ..
  qed
  then obtain z where "r = rat_of_int z * pow2 (float_exp r)" ..
  with rpos have "float64_pos r = r" by (rule float64_pos_fixes)
  then show ?thesis by (simp add: r_def)
qed

lemma float64_idem: "float64 (float64 q) = float64 q"
proof -
  have pos: "float64 (float64 x) = float64 x" if "0 < x" for x
  proof (cases "float64_pos x = 0")
    case True
    then show ?thesis using that by (simp add: float64_def)
  next
    case False
    then have "0 < float64_pos x" using float64_pos_nonneg [OF that] by linarith
    then show ?thesis using that float64_pos_idem [OF that] by (simp add: float64_def)
  qed
  have neg: "float64 (- x) = - float64 x" for x by (simp add: float64_def)
  show ?thesis
  proof (cases "0 < q")
    case True
    then show ?thesis by (rule pos)
  next
    case False
    show ?thesis
    proof (cases "q = 0")
      case True
      then show ?thesis by (simp add: float64_def)
    next
      case False
      with \<open>\<not> 0 < q\<close> have "0 < - q" by linarith
      then have "float64 (float64 (- q)) = float64 (- q)" by (rule pos)
      then show ?thesis by (simp add: neg)
    qed
  qed
qed

lemma float64_pos_mono:
  assumes "0 < x" and "x \<le> y"
  shows "float64_pos x \<le> float64_pos y"
proof -
  have y: "0 < y" using assms by linarith
  have ee: "float_exp x \<le> float_exp y"
    using ilog2_mono [OF assms] by (simp add: float_exp_def)
  show ?thesis
  proof (cases "float_exp x = float_exp y")
    case True
    have "x / pow2 (float_exp y) \<le> y / pow2 (float_exp y)"
      using assms(2) pow2_pos [of "float_exp y"] by (simp add: divide_right_mono)
    then have "round_half_even (x / pow2 (float_exp y)) \<le> round_half_even (y / pow2 (float_exp y))"
      by (rule round_half_even_mono)
    then have "rat_of_int (round_half_even (x / pow2 (float_exp y)))
        \<le> rat_of_int (round_half_even (y / pow2 (float_exp y)))" by (simp only: of_int_le_iff)
    then show ?thesis using True pow2_pos [of "float_exp y"]
      by (simp add: float64_pos_alt mult_right_mono)
  next
    case False
    with ee have lt: "float_exp x + 53 \<le> float_exp y + 52" by linarith
    then have "float_exp y = ilog2 y - 52" by (simp add: float_exp_def)
    then have "rat_of_int (2 ^ 52) \<le> rat_of_int (round_half_even (y / pow2 (float_exp y)))"
      using mant_lower [OF y] by (simp only: of_int_le_iff)
    then have low: "2 ^ 52 * pow2 (float_exp y) \<le> float64_pos y"
      using pow2_pos [of "float_exp y"] by (simp add: float64_pos_alt mult_right_mono)
    have "rat_of_int (round_half_even (x / pow2 (float_exp x))) \<le> rat_of_int (2 ^ 53)"
      using mant_upper [OF assms(1)] by (simp only: of_int_le_iff)
    then have "float64_pos x \<le> 2 ^ 53 * pow2 (float_exp x)"
      using pow2_pos [of "float_exp x"] by (simp add: float64_pos_alt mult_right_mono)
    also have "\<dots> = pow2 (float_exp x + 53)" by (simp add: pow2_add pow2_nat)
    also have "\<dots> \<le> pow2 (float_exp y + 52)" using lt by (rule pow2_mono)
    also have "\<dots> = 2 ^ 52 * pow2 (float_exp y)" by (simp add: pow2_add pow2_nat)
    finally show ?thesis using low by linarith
  qed
qed

lemma float64_mono:
  assumes "x \<le> y"
  shows "float64 x \<le> float64 y"
proof -
  consider "0 < x" | "x \<le> 0" "0 < y" | "y < 0" | "x < 0" "y = 0" | "x = 0" "y = 0"
    using assms by linarith
  then show ?thesis
  proof cases
    case 1
    then show ?thesis using assms float64_pos_mono [of x y] by (simp add: float64_def)
  next
    case 2
    then have "float64 x \<le> 0" using float64_pos_nonneg [of "- x"] by (auto simp add: float64_def)
    moreover have "0 \<le> float64 y" using 2 float64_pos_nonneg [of y] by (simp add: float64_def)
    ultimately show ?thesis by linarith
  next
    case 3
    then have "float64_pos (- y) \<le> float64_pos (- x)"
      using assms float64_pos_mono [of "- y" "- x"] by simp
    then show ?thesis using 3 assms by (simp add: float64_def)
  next
    case 4
    then show ?thesis using float64_pos_nonneg [of "- x"] by (simp add: float64_def)
  next
    case 5
    then show ?thesis by simp
  qed
qed


subsection \<open>Evaluating the rounding on numerals\<close>

lemma floor_rat_numeral: "\<lfloor>(numeral a :: rat) / numeral b\<rfloor> = numeral a div numeral b"
  using floor_divide_of_int_eq [of "numeral a" "numeral b", where ?'a = rat] by simp

lemma floor_rat_neg_numeral: "\<lfloor>- ((numeral a :: rat) / numeral b)\<rfloor> = - numeral a div numeral b"
  using floor_divide_of_int_eq [of "- numeral a" "numeral b", where ?'a = rat] by simp

lemma ceiling_rat_numeral: "\<lceil>(numeral a :: rat) / numeral b\<rceil> = - (- numeral a div numeral b)"
  by (simp add: ceiling_def floor_rat_neg_numeral)

lemma ceiling_rat_neg_numeral: "\<lceil>- ((numeral a :: rat) / numeral b)\<rceil> = - (numeral a div numeral b)"
  by (simp add: ceiling_def floor_rat_numeral)

lemma bitlen_numeral: "bitlen (numeral n) = bitlen (numeral n div 2) + 1"
  by (subst compute_bitlen) simp

lemma bitlen_one: "bitlen 1 = 1"
  by (subst compute_bitlen) simp

text \<open>
  With these rules the simplifier computes \<open>float64\<close> of a numeral: the exponent by
  halving, the mantissa by integer division.
\<close>

lemmas float_eval =
  float64_def float64_pos_def float_exp_def ilog2_def round_half_even_def pow2_def Let_def
  floor_rat_numeral floor_rat_neg_numeral ceiling_rat_numeral ceiling_rat_neg_numeral
  bitlen_numeral bitlen_one

section \<open>The score of one wallet\<close>

lemmas score_defs =
  score_borrow_supply_ratio_def score_liquidation_count_def score_inactivity_days_def
  score_repayment_frequency_def score_volatile_asset_usage_def score_protocol_version_def
  score_collateral_factor_def get_num_def get_str_def

lemma weights_get_values:
  "weights_get ''borrow_supply_ratio'' = 1 / 4"
  "weights_get ''liquidation_count'' = 3602879701896397 / 18014398509481984"
  "weights_get ''inactivity_days'' = 5404319552844595 / 36028797018963968"
  "weights_get ''repayment_frequency'' = 5404319552844595 / 36028797018963968"
  "weights_get ''volatile_asset_usage'' = 3602879701896397 / 36028797018963968"
  "weights_get ''protocol_version'' = 3602879701896397 / 36028797018963968"
  "weights_get ''collateral_factor'' = 3602879701896397 / 72057594037927936"
  by (simp_all add: weights_get_def RISK_WEIGHTS_def float_eval)

lemma weighted_score_unfold:
  "weighted_score f =
     fadd (fadd (fadd (fadd (fadd (fadd (fadd 0
       (fmul (of_int (score_borrow_supply_ratio f)) (1 / 4)))
       (fmul (of_int (score_liquidation_count f)) (3602879701896397 / 18014398509481984)))
       (fmul (of_int (score_inactivity_days f)) (5404319552844595 / 36028797018963968)))
       (fmul (of_int (score_repayment_frequency f)) (5404319552844595 / 36028797018963968)))
       (fmul (of_int (score_volatile_asset_usage f)) (3602879701896397 / 36028797018963968)))
       (fmul (of_int (score_protocol_version f)) (3602879701896397 / 36028797018963968)))
       (fmul (of_int (score_collateral_factor f)) (3602879701896397 / 72057594037927936))"
  by (simp add: weighted_score_def risk_components_def weights_get_values)

lemma component_ranges:
  "- 100 \<le> score_borrow_supply_ratio f \<and> score_borrow_supply_ratio f \<le> 100"
  "- 100 \<le> score_liquidation_count f \<and> score_liquidation_count f \<le> 50"
  "- 50 \<le> score_inactivity_days f \<and> score_inactivity_days f \<le> 50"
  "- 50 \<le> score_repayment_frequency f \<and> score_repayment_frequency f \<le> 50"
  "- 50 \<le> score_volatile_asset_usage f \<and> score_volatile_asset_usage f \<le> 50"
  "- 25 \<le> score_protocol_version f \<and> score_protocol_version f \<le> 25"
  "- 50 \<le> score_collateral_factor f \<and> score_collateral_factor f \<le> 25"
  by (simp_all add: score_defs Let_def)

lemma float64_in:
  assumes "a \<le> x" and "x \<le> b" and "float64 a = a'" and "float64 b = b'"
  shows "a' \<le> float64 x \<and> float64 x \<le> b'"
  using float64_mono [OF assms(1)] float64_mono [OF assms(2)] assms(3,4) by simp

lemma acc_step:
  assumes acc: "L \<le> acc \<and> acc \<le> U"
    and c: "lo \<le> c \<and> c \<le> hi"
    and w: "0 \<le> w"
    and l: "float64 (rat_of_int lo * w) = l"
    and u: "float64 (rat_of_int hi * w) = u"
    and L': "float64 (L + l) = L'"
    and U': "float64 (U + u) = U'"
  shows "L' \<le> fadd acc (fmul (rat_of_int c) w) \<and> fadd acc (fmul (rat_of_int c) w) \<le> U'"
proof -
  have "rat_of_int lo \<le> rat_of_int c" and "rat_of_int c \<le> rat_of_int hi"
    using c by simp_all
  then have "rat_of_int lo * w \<le> rat_of_int c * w" and "rat_of_int c * w \<le> rat_of_int hi * w"
    using w by (simp_all add: mult_right_mono)
  then have p: "l \<le> fmul (rat_of_int c) w \<and> fmul (rat_of_int c) w \<le> u"
    unfolding fmul_def using l u by (rule float64_in)
  show ?thesis
    unfolding fadd_def
  proof (rule float64_in)
    show "L + l \<le> acc + fmul (rat_of_int c) w" using acc p by linarith
    show "acc + fmul (rat_of_int c) w \<le> U + u" using acc p by linarith
  qed (fact L' U')+
qed

lemma weighted_score_bounds: "- 70 \<le> weighted_score f \<and> weighted_score f \<le> 235 / 4"
proof -
  define s0 :: rat where "s0 = 0"
  define s1 where "s1 = fadd s0 (fmul (rat_of_int (score_borrow_supply_ratio f)) (1 / 4))"
  define s2 where "s2 = fadd s1 (fmul (rat_of_int (score_liquidation_count f)) (3602879701896397 / 18014398509481984))"
  define s3 where "s3 = fadd s2 (fmul (rat_of_int (score_inactivity_days f)) (5404319552844595 / 36028797018963968))"
  define s4 where "s4 = fadd s3 (fmul (rat_of_int (score_repayment_frequency f)) (5404319552844595 / 36028797018963968))"
  define s5 where "s5 = fadd s4 (fmul (rat_of_int (score_volatile_asset_usage f)) (3602879701896397 / 36028797018963968))"
  define s6 where "s6 = fadd s5 (fmul (rat_of_int (score_protocol_version f)) (3602879701896397 / 36028797018963968))"
  define s7 where "s7 = fadd s6 (fmul (rat_of_int (score_collateral_factor f)) (3602879701896397 / 72057594037927936))"
  have b0: "0 \<le> s0 \<and> s0 \<le> 0" by (simp add: s0_def)
  have b1: "- 25 \<le> s1 \<and> s1 \<le> 25"
    unfolding s1_def
    by (rule acc_step [OF b0 component_ranges(1), where l = "- 25" and u = "25"])
      (simp_all add: float_eval)
  have b2: "- 45 \<le> s2 \<and> s2 \<le> 35"
    unfolding s2_def
    by (rule acc_step [OF b1 component_ranges(2), where l = "- 20" and u = "10"])
      (simp_all add: float_eval)
  have b3: "- (105 / 2) \<le> s3 \<and> s3 \<le> 85 / 2"
    unfolding s3_def
    by (rule acc_step [OF b2 component_ranges(3), where l = "- (15 / 2)" and u = "15 / 2"])
      (simp_all add: float_eval)
  have b4: "- 60 \<le> s4 \<and> s4 \<le> 50"
    unfolding s4_def
    by (rule acc_step [OF b3 component_ranges(4), where l = "- (15 / 2)" and u = "15 / 2"])
      (simp_all add: float_eval)
  have b5: "- 65 \<le> s5 \<and> s5 \<le> 55"
    unfolding s5_def
    by (rule acc_step [OF b4 component_ranges(5), where l = "- 5" and u = "5"])
      (simp_all add: float_eval)
  have b6: "- (135 / 2) \<le> s6 \<and> s6 \<le> 115 / 2"
    unfolding s6_def
    by (rule acc_step [OF b5 component_ranges(6), where l = "- (5 / 2)" and u = "5 / 2"])
      (simp_all add: float_eval)
  have b7: "- 70 \<le> s7 \<and> s7 \<le> 235 / 4"
    unfolding s7_def
    by (rule acc_step [OF b6 component_ranges(7), where l = "- (5 / 2)" and u = "5 / 4"])
      (simp_all add: float_eval)
  have "weighted_score f = s7"
    by (simp add: weighted_score_unfold s7_def s6_def s5_def s4_def s3_def s2_def s1_def s0_def)
  with b7 show ?thesis by simp
qed

lemma final_score_bounds:
  "430 \<le> fadd 500 (weighted_score f) \<and> fadd 500 (weighted_score f) \<le> 2235 / 4"
  unfolding fadd_def
proof (rule float64_in)
  show "500 + - 70 \<le> 500 + weighted_score f" using weighted_score_bounds [of f] by simp
  show "500 + weighted_score f \<le> 500 + 235 / 4" using weighted_score_bounds [of f] by simp
qed (simp_all add: float_eval)

lemma calculate_risk_score_430_558:
  "430 \<le> calculate_risk_score f \<and> calculate_risk_score f \<le> 558"
proof -
  define x where "x = fadd 500 (weighted_score f)"
  have x: "430 \<le> x \<and> x \<le> 2235 / 4" unfolding x_def by (rule final_score_bounds)
  then have clamp: "max 0 (min 1000 x) = x" by simp
  have "calculate_risk_score f = \<lfloor>x\<rfloor>"
    using x by (simp add: calculate_risk_score_def Let_def py_int_def x_def [symmetric] clamp)
  moreover have "430 \<le> \<lfloor>x\<rfloor>" using x by (simp add: le_floor_iff)
  moreover have "\<lfloor>x\<rfloor> \<le> 558" using x by (simp add: floor_le_iff)
  ultimately show ?thesis by simp
qed


lemma scenario_components:
  "map snd (risk_components scenario_features) = [100, 50, 50, 50, 50, 25, 25]"
  by (simp add: risk_components_def scenario_features_def score_defs float_eval)

lemma scenario_weighted_score: "weighted_score scenario_features = 235 / 4"
  by (simp add: weighted_score_def risk_components_def scenario_features_def weights_get_values
      score_defs fadd_def fmul_def float_eval)

lemma scenario_score: "calculate_risk_score scenario_features = 558"
proof -
  have final: "fadd 500 (weighted_score scenario_features) = 2235 / 4"
    unfolding scenario_weighted_score by (simp add: fadd_def float_eval)
  show ?thesis
    unfolding calculate_risk_score_def Let_def final
    by (simp add: py_int_def floor_rat_numeral)
qed

text \<open>
  C1, as stated: the scenario's contributions are 100, 50, 50, 50, 50, 25, 25, their
  weighted sum is 58.75, the score is 558 and the category of 558 is "Low Risk". The last
  part fails: 558 is below the threshold 600 of "Low Risk".
\<close>

theorem scenario_category_not_low_risk:
  "\<not> (map snd (risk_components scenario_features) = [100, 50, 50, 50, 50, 25, 25]
      \<and> weighted_score scenario_features = 235 / 4
      \<and> calculate_risk_score scenario_features = 558
      \<and> get_risk_category 558 = ''Low Risk'')"
  by (simp add: get_risk_category_def)

text \<open>
  C1, amended: for the scenario's feature record the seven contributions are
  100, 50, 50, 50, 50, 25, 25, the weighted sum under the default weights is 58.75, the
  score is 558 after truncation, and the category of 558 is "Moderate Risk".
\<close>

theorem scenario_score_558_moderate_risk:
  "map snd (risk_components scenario_features) = [100, 50, 50, 50, 50, 25, 25]
   \<and> weighted_score scenario_features = 235 / 4
   \<and> calculate_risk_score scenario_features = 558
   \<and> get_risk_category (calculate_risk_score scenario_features) = ''Moderate Risk''"
  by (simp add: scenario_components scenario_weighted_score scenario_score get_risk_category_def)

text \<open>
  C4: for every feature record, whatever its field values (a ratio of \<open>10 ^ 9\<close>, infinities
  and NaN included, keys present or absent), the integer returned by
  \<open>calculate_risk_score\<close> lies in the closed interval from 0 to 1000.
\<close>

theorem calculate_risk_score_in_0_1000:
  "0 \<le> calculate_risk_score f \<and> calculate_risk_score f \<le> 1000"
  by (simp add: calculate_risk_score_def py_int_def Let_def le_floor_iff floor_le_iff)

theorem calculate_risk_score_in_0_1000_extreme:
  "0 \<le> calculate_risk_score extreme_features \<and> calculate_risk_score extreme_features \<le> 1000
   \<and> 0 \<le> calculate_risk_score nonfinite_features
   \<and> calculate_risk_score nonfinite_features \<le> 1000"
  using calculate_risk_score_in_0_1000 [of extreme_features]
    calculate_risk_score_in_0_1000 [of nonfinite_features]
  by simp

text \<open>
  C10: for every feature record the score lies between 400 and 600, so the clamp to the
  interval from 0 to 1000 leaves the value unchanged; each of the seven contributions lies
  between -100 and 100, and the configured weights are non-negative and add up to 1.0
  (added in double precision, in the order of the configuration).
\<close>

theorem calculate_risk_score_in_400_600:
  "400 \<le> calculate_risk_score f \<and> calculate_risk_score f \<le> 600
   \<and> max 0 (min 1000 (fadd 500 (weighted_score f))) = fadd 500 (weighted_score f)
   \<and> (\<forall>(component, score) \<in> set (risk_components f). - 100 \<le> score \<and> score \<le> 100)
   \<and> (\<forall>(component, weight) \<in> set RISK_WEIGHTS. 0 \<le> weight)
   \<and> foldl fadd 0 (map snd RISK_WEIGHTS) = 1"
proof (intro conjI)
  show "400 \<le> calculate_risk_score f" using calculate_risk_score_430_558 [of f] by simp
  show "calculate_risk_score f \<le> 600" using calculate_risk_score_430_558 [of f] by simp
  show "max 0 (min 1000 (fadd 500 (weighted_score f))) = fadd 500 (weighted_score f)"
    using final_score_bounds [of f] by simp
  show "\<forall>(component, score) \<in> set (risk_components f). - 100 \<le> score \<and> score \<le> 100"
    using component_ranges [of f] by (simp add: risk_components_def)
  show "\<forall>(component, weight) \<in> set RISK_WEIGHTS. 0 \<le> weight"
    by (simp add: RISK_WEIGHTS_def float_eval)
  show "foldl fadd 0 (map snd RISK_WEIGHTS) = 1"
    by (simp add: RISK_WEIGHTS_def fadd_def float_eval)
qed

theorem calculate_risk_score_in_400_600_scenario:
  "400 \<le> calculate_risk_score nonfinite_features
   \<and> calculate_risk_score nonfinite_features \<le> 600
   \<and> max 0 (min 1000 (fadd 500 (weighted_score nonfinite_features)))
       = fadd 500 (weighted_score nonfinite_features)
   \<and> - 100 \<le> score_borrow_supply_ratio nonfinite_features
   \<and> score_borrow_supply_ratio nonfinite_features \<le> 100
   \<and> - 100 \<le> score_liquidation_count nonfinite_features
   \<and> score_liquidation_count nonfinite_features \<le> 100"
  using calculate_risk_score_in_400_600 [of nonfinite_features]
  by (simp add: risk_components_def)

section \<open>Normalisation of a batch\<close>

lemma float64_zero: "float64 0 = 0"
  by (simp add: float64_def)

lemma float64_one: "float64 1 = 1"
  by (simp add: float_eval)

lemma float64_minus: "float64 (- q) = - float64 q"
  by (simp add: float64_def)

lemma fold_min_const: "\<forall>y \<in> set xs. y = v \<Longrightarrow> fold min xs v = (v::rat)"
  by (induction xs) simp_all

lemma fold_max_const: "\<forall>y \<in> set xs. y = v \<Longrightarrow> fold max xs v = (v::rat)"
  by (induction xs) simp_all

lemma float64_pos_of_int:
  assumes "0 < n"
  shows "\<exists>k. float64_pos (rat_of_int n) = rat_of_int k"
proof (cases "0 \<le> float_exp (rat_of_int n)")
  case True
  define e where "e = float_exp (rat_of_int n)"
  have "float64_pos (rat_of_int n)
      = rat_of_int (round_half_even (rat_of_int n / pow2 e) * 2 ^ nat e)"
    using True by (simp add: float64_pos_alt e_def [symmetric] pow2_nat)
  then show ?thesis ..
next
  case False
  define e where "e = float_exp (rat_of_int n)"
  have e: "e \<le> 0" using False by (simp add: e_def)
  have "rat_of_int n / pow2 e = rat_of_int (n * 2 ^ nat (- e))"
    using e by (simp add: pow2_neg)
  then have "round_half_even (rat_of_int n / pow2 e) = n * 2 ^ nat (- e)"
    by (simp only: round_half_even_of_int)
  then have "float64_pos (rat_of_int n) = rat_of_int (n * 2 ^ nat (- e)) * pow2 e"
    by (simp only: float64_pos_alt e_def [symmetric])
  also have "\<dots> = rat_of_int n" using e by (simp add: pow2_neg)
  finally show ?thesis ..
qed

lemma float64_of_int: "\<exists>k. float64 (rat_of_int n) = rat_of_int k"
proof -
  consider "n = 0" | "0 < n" | "0 < - n" by linarith
  then show ?thesis
  proof cases
    case 1
    then have "float64 (rat_of_int n) = rat_of_int 0" by (simp add: float64_def)
    then show ?thesis ..
  next
    case 2
    then obtain k where "float64_pos (rat_of_int n) = rat_of_int k"
      using float64_pos_of_int by blast
    with 2 have "float64 (rat_of_int n) = rat_of_int k" by (simp add: float64_def)
    then show ?thesis ..
  next
    case 3
    then obtain k where "float64_pos (rat_of_int (- n)) = rat_of_int k"
      using float64_pos_of_int by blast
    with 3 have "float64 (rat_of_int n) = rat_of_int (- k)" by (simp add: float64_def)
    then show ?thesis ..
  qed
qed

text \<open>
  The range of a column of integers is 0 or at least 1, so on such a column the guard
  \<open>scale < 10 * eps\<close> and the test \<open>scale == 0.0\<close> of older releases of the library select
  the same entries.
\<close>

lemma integer_column_range:
  assumes "a \<le> b"
  shows "fsub (float64 (rat_of_int b)) (float64 (rat_of_int a)) = 0
         \<or> 1 \<le> fsub (float64 (rat_of_int b)) (float64 (rat_of_int a))"
proof -
  obtain ka where ka: "float64 (rat_of_int a) = rat_of_int ka" using float64_of_int by blast
  obtain kb where kb: "float64 (rat_of_int b) = rat_of_int kb" using float64_of_int by blast
  have "float64 (rat_of_int a) \<le> float64 (rat_of_int b)"
    using assms by (intro float64_mono) simp
  then have le: "ka \<le> kb" by (simp add: ka kb)
  show ?thesis
  proof (cases "ka = kb")
    case True
    have "fsub (float64 (rat_of_int b)) (float64 (rat_of_int a)) = float64 0"
      unfolding fsub_def ka kb True by simp
    then show ?thesis by (simp add: float64_zero)
  next
    case False
    with le have "(1::rat) \<le> rat_of_int kb - rat_of_int ka"
      by (metis of_int_diff of_int_le_iff of_int_1 zle_diff1_eq zless_add1_eq add.commute
          diff_gt_0_iff_gt int_one_le_iff_zero_less order_le_less)
    then have "float64 1 \<le> float64 (rat_of_int kb - rat_of_int ka)" by (rule float64_mono)
    then show ?thesis unfolding fsub_def ka kb float64_one by (rule disjI2)
  qed
qed

lemma handle_zeros_in_scale_integer_column:
  assumes "d = 0 \<or> 1 \<le> d"
  shows "handle_zeros_in_scale d = (if d = 0 then 1 else d)"
  using assms by (auto simp add: handle_zeros_in_scale_def eps_def)

lemma fit_transform_const:
  assumes "\<forall>y \<in> set xs. y = float64 q"
  shows "fit_transform (float64 q # xs) = Inr (map (\<lambda>v. 0) (float64 q # xs))"
proof -
  define v where "v = float64 q"
  have v: "float64 v = v" by (simp add: v_def float64_idem)
  have all: "\<forall>y \<in> set xs. y = v" using assms by (simp add: v_def)
  have range: "fsub v v = 0" by (simp add: fsub_def float64_zero)
  have scale: "fdiv 1 (handle_zeros_in_scale 0) = 1"
    by (simp add: fdiv_def handle_zeros_in_scale_def eps_def float64_one)
  have offset: "fsub 0 (fmul v 1) = - v" by (simp add: fsub_def fmul_def float64_minus v)
  have elem: "fadd (fmul y 1) (- v) = 0" if "y = v" for y
    using that by (simp add: fadd_def fmul_def v float64_zero)
  have "fit_transform (v # xs) = Inr (map (\<lambda>y. fadd (fmul y 1) (- v)) (v # xs))"
    by (simp add: Let_def fold_min_const [OF all] fold_max_const [OF all] range scale offset)
  also have "map (\<lambda>y. fadd (fmul y 1) (- v)) (v # xs) = map (\<lambda>y. 0) (v # xs)"
    using all by (intro map_cong refl elem) auto
  finally show ?thesis by (simp add: v_def)
qed

lemmas normalize_eval =
  normalize_scores_def scores_after_def single_table_def handle_zeros_in_scale_def eps_def
  fadd_def fsub_def fmul_def fdiv_def py_int_def float_eval

lemma batch_200_500_800:
  "scores_after (normalize_scores (single_table [(''w1'', 200), (''w2'', 500), (''w3'', 800)]) 0) 0
     = Some [0, 500, 1000]"
  by (simp add: normalize_eval)

lemma batch_500_500:
  "scores_after (normalize_scores (single_table [(''w1'', 500), (''w2'', 500)]) 0) 0
     = Some [0, 0]"
  by (simp add: normalize_eval)

text \<open>
  C2, as stated: a non-empty batch whose scores are all equal is normalised to the value
  500 throughout. It fails on the batch of two scores 500: both become 0.
\<close>

theorem equal_scores_not_500:
  "scores_after (normalize_scores (single_table [(''w1'', 500), (''w2'', 500)]) 0) 0
     \<noteq> Some [500, 500]"
  by (simp add: batch_500_500)

text \<open>
  C2, amended: for every non-empty batch in which all raw scores are equal,
  \<open>normalize_scores\<close> raises no error and maps every score to the same value 0: a zero
  range is replaced by 1 before the division, and every score minus the minimum is 0.
\<close>

theorem equal_scores_normalize_to_zero:
  assumes "store scores_df \<noteq> []"
    and "\<forall>row \<in> set (store scores_df). snd row = s"
  shows "normalize_scores store scores_df
           = Inr (scores_df, store(scores_df := map (\<lambda>row. (fst row, 0)) (store scores_df)))"
proof -
  define rows where "rows = store scores_df"
  obtain r rs where rows: "rows = r # rs" using assms(1) by (cases rows) (simp_all add: rows_def)
  define xs where "xs = map (\<lambda>row. float64 (rat_of_int (snd row))) rs"
  have scores: "map (\<lambda>row. float64 (rat_of_int (snd row))) rows = float64 (rat_of_int s) # xs"
    using assms(2) by (simp add: rows xs_def rows_def [symmetric])
  have "\<forall>y \<in> set xs. y = float64 (rat_of_int s)"
    using assms(2) by (auto simp add: xs_def rows_def [symmetric] rows)
  then have ft: "fit_transform (float64 (rat_of_int s) # xs)
      = Inr (map (\<lambda>v. 0) (float64 (rat_of_int s) # xs))"
    by (rule fit_transform_const)
  have ft': "fit_transform (map (\<lambda>row. float64 (rat_of_int (snd row))) rows)
      = Inr (map (\<lambda>v. 0) (map (\<lambda>row. float64 (rat_of_int (snd row))) rows))"
    using ft by (simp only: scores)
  have column: "zip (map fst rows)
      (map (py_int \<circ> ((\<lambda>v. fmul v 1000) \<circ> ((\<lambda>v. 0) \<circ> (\<lambda>row. float64 (rat_of_int (snd row))))))
        rows) = map (\<lambda>row. (fst row, 0)) rows"
    by (induction rows) (simp_all add: fmul_def float64_zero py_int_def)
  have "rows \<noteq> []" by (simp add: rows)
  then have "normalize_scores store scores_df
      = Inr (scores_df, store(scores_df := map (\<lambda>row. (fst row, 0)) rows))"
    unfolding normalize_scores_def Let_def rows_def [symmetric] ft' by (simp add: column)
  then show ?thesis by (simp add: rows_def)
qed

theorem equal_scores_normalize_to_zero_batch:
  "single_table [(''w1'', 500), (''w2'', 500)] 0 \<noteq> []
   \<and> normalize_scores (single_table [(''w1'', 500), (''w2'', 500)]) 0
       = Inr (0, (single_table [(''w1'', 500), (''w2'', 500)])(0 := [(''w1'', 0), (''w2'', 0)]))"
  using equal_scores_normalize_to_zero [of "single_table [(''w1'', 500), (''w2'', 500)]" 0 500]
  by (simp add: single_table_def)

text \<open>
  C3: for a batch whose minimum is below its maximum, the maximum is mapped to 1000. The
  code misses this for the batch of scores 430 and 448, both of which
  \<open>calculate_risk_score\<close> can return: in double precision \<open>448 * (1 / 18) - 430 * (1 / 18)\<close>
  is \<open>1 - 2 ^ - 48\<close>, its product with 1000 is just below 1000, and the truncation
  yields 999.
\<close>

theorem batch_430_448_max_is_999:
  "scores_after (normalize_scores (single_table [(''w1'', 430), (''w2'', 448)]) 0) 0
     = Some [0, 999]"
  by (simp add: normalize_eval)

text \<open>
  C6, as stated: the score column of the input batch is the same after the call as
  before. It fails on the batch 200, 500, 800: after the call the table that was passed in
  holds 0, 500, 1000.
\<close>

theorem normalize_overwrites_input:
  "scores_after (normalize_scores (single_table [(''w1'', 200), (''w2'', 500), (''w3'', 800)]) 0) 0
     \<noteq> Some (map snd (single_table [(''w1'', 200), (''w2'', 500), (''w3'', 800)] 0))"
  by (simp add: batch_200_500_800) (simp add: single_table_def)

lemma zip_fst_map: "zip (map fst rows) (map g rows) = map (\<lambda>row. (fst row, g row)) rows"
  by (induction rows) simp_all

text \<open>
  A non-empty table after the call: every row keeps its \<open>wallet_id\<close>, and its score is
  replaced by the min-max rescaling of the old score against the minimum and the maximum
  of the whole column, times 1000, truncated.
\<close>

lemma normalize_scores_nonempty:
  assumes "store scores_df \<noteq> []"
  shows "normalize_scores store scores_df =
     Inr (scores_df, store(scores_df :=
       (let X = map (\<lambda>row. float64 (rat_of_int (snd row))) (store scores_df);
            data_min = Min (set X);
            data_max = Max (set X);
            scale = fdiv 1 (handle_zeros_in_scale (fsub data_max data_min))
        in map (\<lambda>row. (fst row,
                 py_int (fmul (fadd (fmul (float64 (rat_of_int (snd row))) scale)
                                 (fsub 0 (fmul data_min scale))) 1000)))
             (store scores_df))))"
proof -
  define f where "f = (\<lambda>row :: score_row. float64 (rat_of_int (snd row)))"
  obtain r rs where rows: "store scores_df = r # rs"
    using assms by (cases "store scores_df") simp_all
  have lo: "Min (set (map f (r # rs))) = fold min (map f rs) (f r)"
    by (simp only: list.map Min.set_eq_fold)
  have hi: "Max (set (map f (r # rs))) = fold max (map f rs) (f r)"
    by (simp only: list.map Max.set_eq_fold)
  define scale where
    "scale = fdiv 1 (handle_zeros_in_scale
       (fsub (fold max (map f rs) (f r)) (fold min (map f rs) (f r))))"
  define off where "off = fsub 0 (fmul (fold min (map f rs) (f r)) scale)"
  have ft: "fit_transform (map f (r # rs))
      = Inr (map (\<lambda>v. fadd (fmul v scale) off) (map f (r # rs)))"
    by (simp add: Let_def scale_def off_def)
  have "normalize_scores store scores_df
      = Inr (scores_df, store(scores_df :=
          map (\<lambda>row. (fst row, py_int (fmul (fadd (fmul (f row) scale) off) 1000))) (r # rs)))"
    unfolding normalize_scores_def Let_def rows f_def [symmetric] ft
    by (simp add: zip_fst_map)
  then show ?thesis
    unfolding rows Let_def lo [unfolded f_def] hi [unfolded f_def] scale_def off_def f_def .
qed

text \<open>
  C6, amended: \<open>normalize_scores\<close> raises no error and returns the very table it was given
  (the same reference, no fresh collection). The score column of that table is
  overwritten by the normalized scores: each score becomes its min-max rescaling against
  the minimum and maximum of the column, times 1000, truncated. The \<open>wallet_id\<close> column of
  that table and every other table are unchanged, and an empty table leaves the whole
  store unchanged.
\<close>

theorem normalize_scores_in_place:
  "\<exists>store'. normalize_scores store scores_df = Inr (scores_df, store')
     \<and> (\<forall>r. r \<noteq> scores_df \<longrightarrow> store' r = store r)
     \<and> map fst (store' scores_df) = map fst (store scores_df)
     \<and> (store scores_df = [] \<longrightarrow> store' = store)
     \<and> (store scores_df \<noteq> [] \<longrightarrow>
          (let X = map (\<lambda>row. float64 (rat_of_int (snd row))) (store scores_df);
               data_min = Min (set X);
               data_max = Max (set X);
               scale = fdiv 1 (handle_zeros_in_scale (fsub data_max data_min))
           in map snd (store' scores_df) =
                map (\<lambda>row. py_int (fmul (fadd (fmul (float64 (rat_of_int (snd row))) scale)
                                          (fsub 0 (fmul data_min scale))) 1000))
                  (store scores_df)))"
proof (cases "store scores_df = []")
  case True
  then show ?thesis by (simp add: normalize_scores_def)
next
  case False
  show ?thesis
    unfolding normalize_scores_nonempty [of store scores_df, OF False] Let_def
    using False by (simp add: comp_def)
qed

theorem normalize_scores_in_place_batch:
  "\<exists>store'. normalize_scores (single_table [(''w1'', 200), (''w2'', 500), (''w3'', 800)]) 0
       = Inr (0, store')
     \<and> store' 1 = []
     \<and> map fst (store' 0) = [''w1'', ''w2'', ''w3'']
     \<and> map snd (store' 0) = [0, 500, 1000]"
proof -
  define batch :: "score_row list" where "batch = [(''w1'', 200), (''w2'', 500), (''w3'', 800)]"
  have ne: "single_table batch 0 \<noteq> []" by (simp add: single_table_def batch_def)
  from normalize_scores_in_place [of "single_table batch" 0] ne
  obtain store' where res: "normalize_scores (single_table batch) 0 = Inr (0, store')"
    and other: "\<forall>r. r \<noteq> 0 \<longrightarrow> store' r = single_table batch r"
    and ids: "map fst (store' 0) = map fst (single_table batch 0)"
    and new: "let X = map (\<lambda>row. float64 (rat_of_int (snd row))) (single_table batch 0);
                  data_min = Min (set X);
                  data_max = Max (set X);
                  scale = fdiv 1 (handle_zeros_in_scale (fsub data_max data_min))
              in map snd (store' 0) =
                   map (\<lambda>row. py_int (fmul (fadd (fmul (float64 (rat_of_int (snd row))) scale)
                                             (fsub 0 (fmul data_min scale))) 1000))
                     (single_table batch 0)"
    by blast
  have a: "store' 1 = []" using other by (simp add: single_table_def)
  have b: "map fst (store' 0) = [''w1'', ''w2'', ''w3'']"
    using ids by (simp add: single_table_def batch_def)
  have X: "map (\<lambda>row. float64 (rat_of_int (snd row))) (single_table batch 0) = [200, 500, 800]"
    by (simp add: single_table_def batch_def float_eval)
  have lo: "Min (set [200, 500, 800 :: rat]) = 200" by simp
  have hi: "Max (set [200, 500, 800 :: rat]) = 800" by simp
  have c: "map snd (store' 0) = [0, 500, 1000]"
    using new unfolding Let_def X lo hi
    by (simp add: single_table_def batch_def handle_zeros_in_scale_def eps_def
        fadd_def fsub_def fmul_def fdiv_def py_int_def float_eval)
  have res': "normalize_scores (single_table [(''w1'', 200), (''w2'', 500), (''w3'', 800)]) 0
      = Inr (0, store')"
    using res by (simp only: batch_def)
  show ?thesis
  proof (intro exI conjI)
    show "normalize_scores (single_table [(''w1'', 200), (''w2'', 500), (''w3'', 800)]) 0
        = Inr (0, store')" by (fact res')
    show "store' 1 = []" by (fact a)
    show "map fst (store' 0) = [''w1'', ''w2'', ''w3'']" by (fact b)
    show "map snd (store' 0) = [0, 500, 1000]" by (fact c)
  qed
qed

text \<open>
  C8: for the empty batch \<open>normalize_scores\<close> returns the batch as it is, empty, and
  \<open>generate_risk_summary\<close> returns the empty dictionary; neither raises an error.
\<close>

theorem empty_batch_normalize_and_summary:
  assumes "store scores_df = []"
  shows "normalize_scores store scores_df = Inr (scores_df, store)
         \<and> generate_risk_summary (store scores_df) = None"
  using assms by (simp add: normalize_scores_def)

theorem empty_batch_normalize_and_summary_single:
  "single_table [] 0 = []
   \<and> normalize_scores (single_table []) 0 = Inr (0, single_table [])
   \<and> generate_risk_summary (single_table [] 0) = None"
  using empty_batch_normalize_and_summary [of "single_table []" 0]
  by (simp add: single_table_def)

section \<open>The feature extractor\<close>

lemma float64_half: "float64 (1 / 2) = 1 / 2"
  by (simp add: float_eval)

lemma borrow_events_eq_supply_events: "borrow_events wallet_txs = supply_events wallet_txs"
  by (simp add: borrow_events_def supply_events_def)

lemma fold_min_le: "fold min xs (a::int) \<le> a"
proof (induction xs arbitrary: a)
  case Nil
  show ?case by simp
next
  case (Cons x xs)
  have "fold min xs (min x a) \<le> min x a" by (rule Cons.IH)
  then show ?case by simp
qed

lemma fold_max_ge: "(a::int) \<le> fold max xs a"
proof (induction xs arbitrary: a)
  case Nil
  show ?case by simp
next
  case (Cons x xs)
  have "max x a \<le> fold max xs (max x a)" by (rule Cons.IH)
  then show ?case by simp
qed

lemma timestamp_min_le_max: "timestamp_min t ts \<le> timestamp_max t ts"
  using fold_min_le [of "map timestamp ts" "timestamp t"]
    fold_max_ge [of "timestamp t" "map timestamp ts"]
  by (simp add: timestamp_min_def timestamp_max_def)

text \<open>
  Two timestamps on the same calendar day are less than a day apart, so the span of a
  wallet whose earliest and latest transactions fall on one day is zero.
\<close>

lemma same_day_time_span:
  assumes "timedelta_days (timestamp_min t ts) = timedelta_days (timestamp_max t ts)"
  shows "time_span t ts = 0"
proof -
  define a where "a = timestamp_min t ts"
  define b where "b = timestamp_max t ts"
  have ab: "a \<le> b" unfolding a_def b_def by (rule timestamp_min_le_max)
  have eq: "a div 86400000000 = b div 86400000000"
    using assms by (simp add: timedelta_days_def a_def b_def)
  have "b - a < 86400000000"
  proof -
    have "b = 86400000000 * (b div 86400000000) + b mod 86400000000" by simp
    moreover have "a = 86400000000 * (a div 86400000000) + a mod 86400000000" by simp
    moreover have "b mod 86400000000 < 86400000000" by simp
    moreover have "0 \<le> a mod 86400000000" by simp
    ultimately show ?thesis using eq by linarith
  qed
  with ab have "(b - a) div 86400000000 = 0" by simp
  then show ?thesis by (simp add: time_span_def timedelta_days_def a_def b_def)
qed

text \<open>
  C5: for every wallet address without a matching transaction (the whole collection may
  be empty), \<open>extract_wallet_features\<close> returns exactly the default record:
  \<open>days_since_last_activity\<close> 365, every monetary and ratio field 0,
  \<open>protocol_version_usage\<close> "none", \<open>borrowing_behavior\<close> "none" and
  \<open>health_factor_trend\<close> "stable".
\<close>

theorem extract_default_without_transactions:
  assumes "wallet_rows transactions_df wallet_address = []"
  shows "extract_wallet_features now transactions_df wallet_address
           = get_default_features wallet_address
         \<and> get_default_features wallet_address =
             \<lparr>wallet_id = Some wallet_address,
              total_transactions = Some 0,
              first_transaction_date = Some None,
              last_transaction_date = Some None,
              days_since_last_activity = Some (Finite 365),
              total_supplied_usd = Some 0,
              total_borrowed_usd = Some 0,
              supply_to_borrow_ratio = Some (Finite 0),
              number_of_liquidations = Some (Finite 0),
              repayment_frequency = Some (Finite 0),
              volatile_asset_usage = Some (Finite 0),
              protocol_version_usage = Some ''none'',
              collateral_factor_average = Some (Finite 0),
              borrowing_behavior = Some ''none'',
              health_factor_trend = Some ''stable''\<rparr>"
  using assms by (simp add: extract_wallet_features_def get_default_features_def)

theorem extract_default_without_transactions_cases:
  "wallet_rows [] ''0xabc'' = []
   \<and> extract_wallet_features 0 [] ''0xabc'' = get_default_features ''0xabc''
   \<and> wallet_rows [market_tx ''cUSDC'' 5] ''0xdef'' = []
   \<and> extract_wallet_features 0 [market_tx ''cUSDC'' 5] ''0xdef'' = get_default_features ''0xdef''
   \<and> days_since_last_activity (extract_wallet_features 0 [market_tx ''cUSDC'' 5] ''0xdef'')
       = Some (Finite 365)"
proof -
  have a: "wallet_rows [] ''0xabc'' = []" by (simp add: wallet_rows_def)
  have b: "wallet_rows [market_tx ''cUSDC'' 5] ''0xdef'' = []"
    by (simp add: wallet_rows_def market_tx_def)
  show ?thesis
    using a b extract_default_without_transactions [OF a, of 0]
      extract_default_without_transactions [OF b, of 0]
    by simp
qed

text \<open>The \<open>repayment_frequency\<close> feature of a wallet with transactions is the value of the function.\<close>

lemma extract_repayment_frequency:
  assumes "wallet_rows transactions_df wallet_address = t # ts"
  shows "repayment_frequency (extract_wallet_features now transactions_df wallet_address)
           = Some (Finite (calculate_repayment_frequency (t # ts)))"
proof -
  have "transactions_df \<noteq> []" using assms by (auto simp add: wallet_rows_def)
  then show ?thesis
    by (simp add: extract_wallet_features_def assms Let_def
        del: calculate_repayment_frequency.simps calculate_volatile_asset_usage.simps
          determine_protocol_version.simps calculate_collateral_factor.simps
          analyze_borrowing_behavior.simps calculate_health_factor_trend.simps
          calculate_inactivity_days.simps)
qed

text \<open>
  C7: for every wallet whose activity span is zero days (earliest and latest transaction
  less than a day apart, as when both fall on the same day), the repayment frequency is
  the number of transactions that match the repayment keyword, and no division takes
  place: 3 for three matches, 0 for none.
\<close>

theorem repayment_frequency_zero_span:
  assumes "time_span t ts = 0"
  shows "calculate_repayment_frequency (t # ts) = of_nat (length (repayment_events (t # ts)))"
  using assms by simp

theorem repayment_frequency_zero_span_three:
  "time_span (repay_tx 1000) [repay_tx 2000, repay_tx 3000] = 0
   \<and> length (repayment_events [repay_tx 1000, repay_tx 2000, repay_tx 3000]) = 3
   \<and> calculate_repayment_frequency [repay_tx 1000, repay_tx 2000, repay_tx 3000] = 3
   \<and> time_span (market_tx ''cUSDC'' 1000) [] = 0
   \<and> calculate_repayment_frequency [market_tx ''cUSDC'' 1000] = 0"
proof -
  have a: "time_span (repay_tx 1000) [repay_tx 2000, repay_tx 3000] = 0"
    by (simp add: time_span_def timedelta_days_def timestamp_max_def timestamp_min_def
        repay_tx_def)
  have b: "time_span (market_tx ''cUSDC'' 1000) [] = 0"
    by (simp add: time_span_def timedelta_days_def timestamp_max_def timestamp_min_def)
  have n: "length (repayment_events [repay_tx 1000, repay_tx 2000, repay_tx 3000]) = 3"
    by (simp add: repayment_events_def repay_tx_def market_icontains_def str_lower_def
        lower_char_def)
  have z: "repayment_events [market_tx ''cUSDC'' 1000] = []"
    by (simp add: repayment_events_def market_tx_def market_icontains_def topics_any_def
        str_lower_def lower_char_def)
  from repayment_frequency_zero_span [OF a] n
  have three: "calculate_repayment_frequency [repay_tx 1000, repay_tx 2000, repay_tx 3000] = 3"
    by (simp only: of_nat_numeral)
  from repayment_frequency_zero_span [OF b] z
  have none: "calculate_repayment_frequency [market_tx ''cUSDC'' 1000] = 0"
    by (simp only: list.size of_nat_0)
  from a n three b none show ?thesis by (intro conjI)
qed

text \<open>
  C9: for every wallet with at least one matching transaction, the supplied and the
  borrowed totals count the same transactions, with 1000 and 500 for each, and the
  extracted \<open>supply_to_borrow_ratio\<close> is exactly 0.5 when the supplied total is positive
  and exactly 0 otherwise.
\<close>

theorem supply_to_borrow_ratio_zero_or_half:
  assumes "wallet_rows transactions_df wallet_address \<noteq> []"
  shows "total_supplied_usd (extract_wallet_features now transactions_df wallet_address)
           = Some (1000 * int (length (supply_events (wallet_rows transactions_df wallet_address))))
         \<and> total_borrowed_usd (extract_wallet_features now transactions_df wallet_address)
           = Some (500 * int (length (supply_events (wallet_rows transactions_df wallet_address))))
         \<and> supply_to_borrow_ratio (extract_wallet_features now transactions_df wallet_address)
           = Some (Finite (if 0 < length (supply_events (wallet_rows transactions_df wallet_address))
                           then 1 / 2 else 0))"
proof -
  obtain t ts where rows: "wallet_rows transactions_df wallet_address = t # ts"
    using assms by (cases "wallet_rows transactions_df wallet_address") simp_all
  have ne: "transactions_df \<noteq> []" using assms by (auto simp add: wallet_rows_def)
  define n where "n = length (supply_events (t # ts))"
  have sup: "calculate_total_supplied (t # ts) = int n * 1000"
    by (simp add: calculate_total_supplied_def n_def)
  have bor: "calculate_total_borrowed (t # ts) = int n * 500"
    by (simp add: calculate_total_borrowed_def borrow_events_eq_supply_events n_def)
  have ratio: "fdiv (rat_of_int (int n * 500)) (rat_of_int (int n * 1000)) = 1 / 2" if "0 < n"
  proof -
    have "rat_of_int (int n * 500) / rat_of_int (int n * 1000) = 1 / 2" using that by simp
    then show ?thesis by (simp only: fdiv_def float64_half)
  qed
  show ?thesis
  proof (cases "0 < n")
    case True
    then show ?thesis
      using ne ratio [OF True]
      by (simp add: extract_wallet_features_def rows Let_def sup bor n_def [symmetric]
          del: calculate_repayment_frequency.simps calculate_volatile_asset_usage.simps
            determine_protocol_version.simps calculate_collateral_factor.simps
            analyze_borrowing_behavior.simps calculate_health_factor_trend.simps
            calculate_inactivity_days.simps)
  next
    case False
    then show ?thesis
      using ne
      by (simp add: extract_wallet_features_def rows Let_def sup bor n_def [symmetric]
          del: calculate_repayment_frequency.simps calculate_volatile_asset_usage.simps
            determine_protocol_version.simps calculate_collateral_factor.simps
            analyze_borrowing_behavior.simps calculate_health_factor_trend.simps
            calculate_inactivity_days.simps)
  qed
qed

theorem supply_to_borrow_ratio_zero_or_half_cases:
  "wallet_rows [market_tx ''cUSDC'' 5] ''0xabc'' \<noteq> []
   \<and> supply_to_borrow_ratio (extract_wallet_features 0 [market_tx ''cUSDC'' 5] ''0xabc'')
       = Some (Finite (1 / 2))
   \<and> wallet_rows [market_tx ''DAI'' 5] ''0xabc'' \<noteq> []
   \<and> supply_to_borrow_ratio (extract_wallet_features 0 [market_tx ''DAI'' 5] ''0xabc'')
       = Some (Finite 0)"
proof -
  have a: "wallet_rows [market_tx ''cUSDC'' 5] ''0xabc'' \<noteq> []"
    by (simp add: wallet_rows_def market_tx_def)
  have b: "wallet_rows [market_tx ''DAI'' 5] ''0xabc'' \<noteq> []"
    by (simp add: wallet_rows_def market_tx_def)
  have na: "length (supply_events (wallet_rows [market_tx ''cUSDC'' 5] ''0xabc'')) = 1"
    by (simp add: wallet_rows_def market_tx_def supply_events_def market_contains_def)
  have nb: "length (supply_events (wallet_rows [market_tx ''DAI'' 5] ''0xabc'')) = 0"
    by (simp add: wallet_rows_def market_tx_def supply_events_def market_contains_def
        market_isin_def)
  show ?thesis
    using a b supply_to_borrow_ratio_zero_or_half [OF a, of 0]
      supply_to_borrow_ratio_zero_or_half [OF b, of 0]
    by (simp only: na nb) simp
qed


end
